theory Spec2Isabelle
  imports Main "HOL-Library.AList" "HOL-Library.Multiset"
begin

section \<open>Data model\<close>

text \<open>
  Values travelling over XML-RPC: the identity returned by the credential check, the
  attributes of a field descriptor and the values of a record. A Python dictionary is
  an association list with distinct keys, in insertion order.
\<close>

datatype val =
    VNone
  | VBool bool
  | VInt int
  | VStr string
  | VList "val list"
  | VDict "(string \<times> val) list"

text \<open>Python truthiness, as tested by \<^verbatim>\<open>if not uid\<close>.\<close>

fun truthy :: "val \<Rightarrow> bool" where
  "truthy VNone = False"
| "truthy (VBool b) = b"
| "truthy (VInt i) = (i \<noteq> 0)"
| "truthy (VStr s) = (s \<noteq> [])"
| "truthy (VList xs) = (xs \<noteq> [])"
| "truthy (VDict kvs) = (kvs \<noteq> [])"

type_synonym py_record = "(string \<times> val) list"

type_synonym fields_info = "(string \<times> (string \<times> val) list) list"

text \<open>
  The remote calls the client issues through \<^verbatim>\<open>common.authenticate\<close> and
  \<^verbatim>\<open>models.execute_kw\<close>. Every call carries the endpoint URL of the proxy it goes
  through; the \<^verbatim>\<open>execute_kw\<close> calls carry database, identity, password and model.
\<close>

datatype call =
    Authenticate string string string string
  | FieldsGet string string val string string
  | SearchRead string string val string string "val list list" "string list"
  | Create string string val string string py_record

fun is_create :: "call \<Rightarrow> bool" where
  "is_create (Create u d i p m r) = True"
| "is_create q = False"

fun call_uid :: "call \<Rightarrow> val option" where
  "call_uid (Authenticate u d n p) = None"
| "call_uid (FieldsGet u d i p m) = Some i"
| "call_uid (SearchRead u d i p m dm fs) = Some i"
| "call_uid (Create u d i p m r) = Some i"

text \<open>
  Exceptions as values: a failure of the transport or of the remote side, the
  \<^verbatim>\<open>Exception("Authentication failed: ...")\<close> raised by \<^verbatim>\<open>authenticate\<close>, the
  \<^verbatim>\<open>KeyError\<close> of \<^verbatim>\<open>v['type']\<close> on a descriptor without that attribute, and the
  exception raised by \<^verbatim>\<open>xmlrpc.client.ServerProxy(uri)\<close> for a URI it does not accept
  (\<^verbatim>\<open>OSError("unsupported XML-RPC protocol")\<close> when the scheme is not http or https).
\<close>

datatype error =
    RpcError string
  | AuthFailed
  | KeyError string
  | ProxyError string

text \<open>
  What lies outside the repository is a parameter of the model: the proxy constructor
  of the XML-RPC library and the remote servers. \<open>server_proxy uri\<close> is the message
  of the exception the library raises when a proxy for \<open>uri\<close> is constructed, or
  \<open>None\<close> when the proxy is built; the construction issues no remote call. A reply of
  a server may depend on every call issued before it (the servers are stateful) and on
  the call itself; a reply is either a fault (the call raises) or the value the call
  returns.
\<close>

record remote =
  server_proxy :: "string \<Rightarrow> string option"
  authenticate_reply :: "call list \<Rightarrow> call \<Rightarrow> string + val"
  fields_get_reply :: "call list \<Rightarrow> call \<Rightarrow> string + fields_info"
  search_read_reply :: "call list \<Rightarrow> call \<Rightarrow> string + py_record list"
  create_reply :: "call list \<Rightarrow> call \<Rightarrow> string + int"

text \<open>
  The observable effects: the remote calls issued so far, in order, and the lines
  written by \<^verbatim>\<open>logger.error\<close> (the message prefix and the exception).
\<close>

record world =
  calls :: "call list"
  logged :: "(string \<times> error) list"

type_synonym 'a result = "(error + 'a) \<times> world"

definition log_error :: "string \<Rightarrow> error \<Rightarrow> world \<Rightarrow> world" where
  "log_error msg e w = w\<lparr>logged := logged w @ [(msg, e)]\<rparr>"

text \<open>One remote call: record it, and turn a fault into an exception.\<close>

definition execute :: "(call list \<Rightarrow> call \<Rightarrow> string + 'a) \<Rightarrow> call \<Rightarrow> world \<Rightarrow> 'a result" where
  "execute handler q w =
     (case handler (calls w) q of Inl f \<Rightarrow> Inl (RpcError f) | Inr v \<Rightarrow> Inr v,
      w\<lparr>calls := calls w @ [q]\<rparr>)"

text \<open>\<^verbatim>\<open>try: ... except Exception as e: logger.error(msg); raise\<close>\<close>

definition log_and_reraise :: "string \<Rightarrow> 'a result \<Rightarrow> 'a result" where
  "log_and_reraise msg r =
     (case r of (Inl e, w) \<Rightarrow> (Inl e, log_error msg e w) | (Inr x, w) \<Rightarrow> (Inr x, w))"

text \<open>Sequencing of two statements: the second runs only if the first did not raise.\<close>

definition and_then :: "'a result \<Rightarrow> ('a \<Rightarrow> world \<Rightarrow> 'b result) \<Rightarrow> 'b result" where
  "and_then r f = (case r of (Inl e, w) \<Rightarrow> (Inl e, w) | (Inr x, w) \<Rightarrow> f x w)"

section \<open>OdooClient\<close>

text \<open>
  The connection descriptor a caller supplies per server, and the client object: the
  four attributes set by \<^verbatim>\<open>__init__\<close> before authentication, extended by the
  identity that \<^verbatim>\<open>authenticate\<close> returns. \<^verbatim>\<open>__init__\<close> constructs the two
  proxies, for \<^verbatim>\<open>{url}/xmlrpc/2/common\<close> and \<^verbatim>\<open>{url}/xmlrpc/2/object\<close>, before
  it authenticates and outside any \<^verbatim>\<open>try\<close>: an exception of the proxy constructor
  leaves \<^verbatim>\<open>__init__\<close> with no call issued and nothing logged.
\<close>

record server =
  url :: string
  db :: string
  username :: string
  password :: string

record OdooClient = server +
  uid :: val

definition authenticate :: "remote \<Rightarrow> world \<Rightarrow> server \<Rightarrow> val result" where
  "authenticate env w s =
     log_and_reraise ''Authentication error''
       (and_then (execute (authenticate_reply env)
                    (Authenticate (url s) (db s) (username s) (password s)) w)
          (\<lambda>uid w1. if \<not> truthy uid then (Inl AuthFailed, w1) else (Inr uid, w1)))"

definition OdooClient_init :: "remote \<Rightarrow> world \<Rightarrow> server \<Rightarrow> OdooClient result" where
  "OdooClient_init env w s =
     (case server_proxy env (url s @ ''/xmlrpc/2/common'') of
        Some m \<Rightarrow> (Inl (ProxyError m), w)
      | None \<Rightarrow>
          (case server_proxy env (url s @ ''/xmlrpc/2/object'') of
             Some m \<Rightarrow> (Inl (ProxyError m), w)
           | None \<Rightarrow>
               and_then (authenticate env w s)
                 (\<lambda>i w1. (Inr \<lparr>url = url s, db = db s, username = username s,
                               password = password s, uid = i\<rparr>, w1))))"

definition default_exclude_types :: "string list" where
  "default_exclude_types = [''many2many'', ''one2many'', ''many2one'']"

text \<open>\<^verbatim>\<open>x or d\<close> for an optional list: \<^verbatim>\<open>None\<close> and the empty list are both falsy.\<close>

definition falsy :: "'a list option \<Rightarrow> bool" where
  "falsy x = (case x of None \<Rightarrow> True | Some xs \<Rightarrow> xs = [])"

definition or_default :: "'a list option \<Rightarrow> 'a list \<Rightarrow> 'a list" where
  "or_default x d = (case x of None \<Rightarrow> d | Some xs \<Rightarrow> if xs = [] then d else xs)"

text \<open>
  \<^verbatim>\<open>[k for k, v in fields_info.items() if v['type'] not in exclude_types]\<close>: the
  comprehension raises at the first descriptor without a \<^verbatim>\<open>type\<close>.
\<close>

fun filter_fields :: "string list \<Rightarrow> fields_info \<Rightarrow> error + string list" where
  "filter_fields exclude_types [] = Inr []"
| "filter_fields exclude_types ((k, v) # rest) =
     (case map_of v ''type'' of
        None \<Rightarrow> Inl (KeyError ''type'')
      | Some t \<Rightarrow>
          (case filter_fields exclude_types rest of
             Inl e \<Rightarrow> Inl e
           | Inr ks \<Rightarrow> Inr (if t \<in> set (map VStr exclude_types) then ks else k # ks)))"

definition get_filtered_fields ::
  "remote \<Rightarrow> world \<Rightarrow> OdooClient \<Rightarrow> string \<Rightarrow> string list option \<Rightarrow> string list result" where
  "get_filtered_fields env w c model exclude_types =
     (let exclude_types' = or_default exclude_types default_exclude_types in
      log_and_reraise ''Error getting filtered fields''
        (and_then (execute (fields_get_reply env)
                     (FieldsGet (url c) (db c) (uid c) (password c) model) w)
           (\<lambda>fields_info w1. (filter_fields exclude_types' fields_info, w1))))"

definition get_data_from_model ::
  "remote \<Rightarrow> world \<Rightarrow> OdooClient \<Rightarrow> string \<Rightarrow> string list option \<Rightarrow> val list list option
     \<Rightarrow> py_record list result" where
  "get_data_from_model env w c model flds domain =
     (let domain' = or_default domain [] in
      and_then (if falsy flds then get_filtered_fields env w c model None
                else (Inr (the flds), w))
        (\<lambda>flds' w1.
           log_and_reraise ''Error getting data from model''
             (execute (search_read_reply env)
                (SearchRead (url c) (db c) (uid c) (password c) model domain' flds') w1)))"

definition get_fields_from_model ::
  "remote \<Rightarrow> world \<Rightarrow> OdooClient \<Rightarrow> string \<Rightarrow> string list result" where
  "get_fields_from_model env w c model =
     log_and_reraise ''Error getting fields from model''
       (and_then (execute (fields_get_reply env)
                    (FieldsGet (url c) (db c) (uid c) (password c) model) w)
          (\<lambda>fields_info w1. (Inr (map fst fields_info), w1)))"

text \<open>
  Python sets of field names. \<^verbatim>\<open>set(xs)\<close> is kept as a duplicate-free list;
  \<^verbatim>\<open>list(s)\<close> enumerates a set in an order Python leaves unspecified, so the order
  is a parameter: the elements are arranged by an arbitrary rank function \<open>h\<close>
  (every arrangement of a duplicate-free list arises from some \<open>h\<close>, see
  \<open>py_list_any_order\<close>; elements of equal rank keep their order).
\<close>

definition py_set :: "string list \<Rightarrow> string list" where
  "py_set xs = remdups xs"

definition set_minus :: "string list \<Rightarrow> string list \<Rightarrow> string list" where
  "set_minus a b = filter (\<lambda>x. x \<notin> set b) a"

definition set_inter :: "string list \<Rightarrow> string list \<Rightarrow> string list" where
  "set_inter a b = filter (\<lambda>x. x \<in> set b) a"

definition py_list :: "(string \<Rightarrow> nat) \<Rightarrow> string list \<Rightarrow> string list" where
  "py_list h s = sort_key h s"

text \<open>The position of an element in a list: the rank function that yields that list.\<close>

definition pos :: "'a list \<Rightarrow> 'a \<Rightarrow> nat" where
  "pos ys x = length (takeWhile (\<lambda>y. y \<noteq> x) ys)"

record comparison =
  unique_to_list_1 :: "string list"
  unique_to_list_2 :: "string list"
  common_fields :: "string list"

definition compare_field_lists ::
  "(string \<Rightarrow> nat) \<Rightarrow> string list \<Rightarrow> string list \<Rightarrow> comparison" where
  "compare_field_lists h fields_list_1 fields_list_2 =
     (let fields_1_set = py_set fields_list_1;
          fields_2_set = py_set fields_list_2
      in \<lparr>unique_to_list_1 = py_list h (set_minus fields_1_set fields_2_set),
          unique_to_list_2 = py_list h (set_minus fields_2_set fields_1_set),
          common_fields = py_list h (set_inter fields_1_set fields_2_set)\<rparr>)"

text \<open>
  The loop of \<^verbatim>\<open>create_data_on_model\<close>: one \<^verbatim>\<open>create\<close> call per record; a call
  that raises is logged and skipped.
\<close>

fun create_loop ::
  "remote \<Rightarrow> OdooClient \<Rightarrow> string \<Rightarrow> world \<Rightarrow> int list \<Rightarrow> py_record list \<Rightarrow> int list \<times> world" where
  "create_loop env c model w created_ids [] = (created_ids, w)"
| "create_loop env c model w created_ids (rcd # rest) =
     (case execute (create_reply env)
             (Create (url c) (db c) (uid c) (password c) model rcd) w of
        (Inr created_id, w1) \<Rightarrow> create_loop env c model w1 (created_ids @ [created_id]) rest
      | (Inl e, w1) \<Rightarrow>
          create_loop env c model
            (log_error (''Error creating data on model '' @ model) e w1) created_ids rest)"

definition create_data_on_model ::
  "remote \<Rightarrow> world \<Rightarrow> OdooClient \<Rightarrow> string \<Rightarrow> py_record list \<Rightarrow> int list \<times> world" where
  "create_data_on_model env w c model data =
     (if data = [] then ([], w) else create_loop env c model w [] data)"

section \<open>The two workflows\<close>

definition compare_models_between_servers ::
  "remote \<Rightarrow> (string \<Rightarrow> nat) \<Rightarrow> world \<Rightarrow> server \<Rightarrow> server \<Rightarrow> string \<Rightarrow> comparison result" where
  "compare_models_between_servers env h w server1 server2 model =
     log_and_reraise ''Error comparing models between servers''
       (and_then (OdooClient_init env w server1) (\<lambda>client1 w1.
        and_then (get_filtered_fields env w1 client1 model None) (\<lambda>fields1 w2.
        and_then (OdooClient_init env w2 server2) (\<lambda>client2 w3.
        and_then (get_filtered_fields env w3 client2 model None) (\<lambda>fields2 w4.
          (Inr (compare_field_lists h fields1 fields2), w4))))))"

text \<open>
  \<^verbatim>\<open>{key: record[key] for key in common_fields if key in record}\<close>: the keys are
  visited in the order of \<^verbatim>\<open>common_fields\<close>; storing under a key already present
  overwrites its value in place.
\<close>

definition project :: "string list \<Rightarrow> py_record \<Rightarrow> py_record" where
  "project common rcd =
     foldl (\<lambda>d key. case map_of rcd key of None \<Rightarrow> d | Some v \<Rightarrow> AList.update key v d)
       [] common"

definition migrate_data_between_servers ::
  "remote \<Rightarrow> (string \<Rightarrow> nat) \<Rightarrow> world \<Rightarrow> server \<Rightarrow> server \<Rightarrow> string \<Rightarrow> string list option
     \<Rightarrow> val list list option \<Rightarrow> int list result" where
  "migrate_data_between_servers env h w server1 server2 model flds domain =
     log_and_reraise ''Error migrating data between servers''
       (and_then (OdooClient_init env w server1) (\<lambda>client1 w1.
        and_then (get_data_from_model env w1 client1 model flds domain) (\<lambda>server1_data w2.
        and_then (OdooClient_init env w2 server2) (\<lambda>client2 w3.
        and_then (compare_models_between_servers env h w3 server1 server2 model)
          (\<lambda>comparison_result w4.
             let filtered_data = map (project (common_fields comparison_result)) server1_data
             in case create_data_on_model env w4 client2 model filtered_data of
                  (created_ids, w5) \<Rightarrow> (Inr created_ids, w5))))))"

section \<open>Vocabulary of the specification\<close>

text \<open>The remote calls issued between two states of the world.\<close>

definition issued :: "world \<Rightarrow> world \<Rightarrow> call list" where
  "issued w w' = drop (length (calls w)) (calls w')"

text \<open>The world \<open>w'\<close> extends \<open>w\<close> by calls none of which is a create call.\<close>

definition no_create :: "world \<Rightarrow> world \<Rightarrow> bool" where
  "no_create w w' = (\<exists>new. calls w' = calls w @ new \<and> (\<forall>q \<in> set new. \<not> is_create q))"

text \<open>The two URIs for which the constructor of a client builds a proxy.\<close>

definition proxy_uris :: "server \<Rightarrow> string list" where
  "proxy_uris s = [url s @ ''/xmlrpc/2/common'', url s @ ''/xmlrpc/2/object'']"

text \<open>
  The create call for one record, and the replies of the remote side to the create
  calls for a sequence of records issued one after the other, starting after the calls
  \<open>hist\<close>: the reply to the \<open>i\<close>-th call depends on the \<open>i\<close> calls before it.
\<close>

definition create_call :: "OdooClient \<Rightarrow> string \<Rightarrow> py_record \<Rightarrow> call" where
  "create_call c model rcd = Create (url c) (db c) (uid c) (password c) model rcd"

definition create_replies ::
  "remote \<Rightarrow> call list \<Rightarrow> OdooClient \<Rightarrow> string \<Rightarrow> py_record list \<Rightarrow> (string + int) list" where
  "create_replies env hist c model data =
     map (\<lambda>i. create_reply env (hist @ map (create_call c model) (take i data))
                (create_call c model (data ! i)))
       [0..<length data]"

fun succeeded :: "(string + int) list \<Rightarrow> int list" where
  "succeeded [] = []"
| "succeeded (Inr i # rs) = i # succeeded rs"
| "succeeded (Inl f # rs) = succeeded rs"

fun failed :: "(string + int) list \<Rightarrow> string list" where
  "failed [] = []"
| "failed (Inr i # rs) = failed rs"
| "failed (Inl f # rs) = f # failed rs"

text \<open>
  The names of the fields of a schema whose type is one of the given types, and the
  introspection call of a client.
\<close>

definition has_type_in :: "string list \<Rightarrow> (string \<times> val) list \<Rightarrow> bool" where
  "has_type_in types v =
     (case map_of v ''type'' of None \<Rightarrow> False | Some t \<Rightarrow> t \<in> set (map VStr types))"

definition fields_of_types :: "string list \<Rightarrow> fields_info \<Rightarrow> string list" where
  "fields_of_types types info = map fst (filter (\<lambda>(k, v). has_type_in types v) info)"

definition fields_get_call :: "OdooClient \<Rightarrow> string \<Rightarrow> call" where
  "fields_get_call c model = FieldsGet (url c) (db c) (uid c) (password c) model"

definition authenticate_call :: "server \<Rightarrow> call" where
  "authenticate_call s = Authenticate (url s) (db s) (username s) (password s)"

definition search_read_call ::
  "OdooClient \<Rightarrow> string \<Rightarrow> val list list option \<Rightarrow> string list \<Rightarrow> call" where
  "search_read_call c model domain fs =
     SearchRead (url c) (db c) (uid c) (password c) model
       (case domain of None \<Rightarrow> [] | Some d \<Rightarrow> d) fs"

section \<open>A test scenario\<close>

text \<open>
  Two servers holding the entity type \<^verbatim>\<open>crm.tag\<close>. The proxy constructor of the
  scenario accepts a URI whose scheme, the text before its first colon, is http or
  https, and raises for any other. The remote side answers the credential check with a
  given identity, introspection with a schema per server, the read with a given reply,
  and rejects the creation of a record named \<^verbatim>\<open>bad\<close>; a created record gets the
  number of calls issued so far as identifier.
\<close>

definition check_protocol :: "string \<Rightarrow> string option" where
  "check_protocol uri =
     (let scheme = takeWhile (\<lambda>c. c \<noteq> CHR '':'') uri
      in if scheme \<noteq> uri \<and> (scheme = ''http'' \<or> scheme = ''https'') then None
         else Some ''unsupported XML-RPC protocol'')"

definition server_a :: server where
  "server_a = \<lparr>url = ''http://a'', db = ''da'', username = ''ua'', password = ''pa''\<rparr>"

definition server_b :: server where
  "server_b = \<lparr>url = ''http://b'', db = ''db'', username = ''ub'', password = ''pb''\<rparr>"

definition schema_a :: fields_info where
  "schema_a = [(''name'', [(''type'', VStr ''char'')]),
               (''color'', [(''type'', VStr ''integer'')]),
               (''active'', [(''type'', VStr ''boolean'')]),
               (''partner_id'', [(''type'', VStr ''many2one'')])]"

definition schema_b :: fields_info where
  "schema_b = [(''name'', [(''type'', VStr ''char'')]),
               (''color'', [(''type'', VStr ''integer'')]),
               (''description'', [(''type'', VStr ''text'')])]"

definition scenario ::
  "val \<Rightarrow> fields_info \<Rightarrow> fields_info \<Rightarrow> string + py_record list \<Rightarrow> remote" where
  "scenario ident sa sb rows =
     \<lparr>server_proxy = check_protocol,
      authenticate_reply = (\<lambda>hist q. Inr ident),
      fields_get_reply = (\<lambda>hist q.
         case q of FieldsGet u d i p m \<Rightarrow> Inr (if u = ''http://a'' then sa else sb)
                 | _ \<Rightarrow> Inl ''unexpected''),
      search_read_reply = (\<lambda>hist q. rows),
      create_reply = (\<lambda>hist q.
         case q of Create u d i p m r \<Rightarrow>
                     if map_of r ''name'' = Some (VStr ''bad'') then Inl ''rejected''
                     else Inr (int (length hist))
                 | _ \<Rightarrow> Inl ''unexpected'')\<rparr>"

definition world0 :: world where
  "world0 = \<lparr>calls = [], logged = []\<rparr>"

definition client_b :: OdooClient where
  "client_b = \<lparr>url = ''http://b'', db = ''db'', username = ''ub'', password = ''pb'', uid = VInt 2\<rparr>"

definition vip :: py_record where
  "vip = [(''name'', VStr ''VIP''), (''color'', VInt 5), (''active'', VBool True)]"

definition three_records :: "py_record list" where
  "three_records = [[(''name'', VStr ''x'')], [(''name'', VStr ''bad'')], [(''name'', VStr ''z'')]]"

definition client_a :: OdooClient where
  "client_a = \<lparr>url = ''http://a'', db = ''da'', username = ''ua'', password = ''pa'', uid = VInt 2\<rparr>"

text \<open>
  The world after the given calls with nothing logged, and the calls of the scenario's
  read phase and of its comparison phase.
\<close>

definition after :: "call list \<Rightarrow> world" where
  "after cs = \<lparr>calls = cs, logged = []\<rparr>"

definition trace_read :: "call list" where
  "trace_read = [authenticate_call server_a, fields_get_call client_a ''crm.tag'',
                 search_read_call client_a ''crm.tag'' None [''name'', ''color'', ''active'']]"

definition trace_compare :: "call list" where
  "trace_compare = [authenticate_call server_a, fields_get_call client_a ''crm.tag'',
                    authenticate_call server_b, fields_get_call client_b ''crm.tag'']"

definition first_seen :: "string \<Rightarrow> nat" where
  "first_seen k = 0"

text \<open>A connection descriptor whose URL has no scheme, and a schema with a descriptor
  that lacks its type.\<close>

definition server_no_scheme :: server where
  "server_no_scheme = \<lparr>url = ''a'', db = ''da'', username = ''ua'', password = ''pa''\<rparr>"

definition schema_untyped :: fields_info where
  "schema_untyped = [(''name'', [(''type'', VStr ''char'')]), (''color'', [])]"

section \<open>Basic facts\<close>

lemma execute_calls:
  "execute handler q w = (r, w') \<Longrightarrow> calls w' = calls w @ [q] \<and> logged w' = logged w"
  by (auto simp: execute_def)

lemma calls_log_error [simp]: "calls (log_error msg e w) = calls w"
  by (simp add: log_error_def)

lemma logged_log_error [simp]: "logged (log_error msg e w) = logged w @ [(msg, e)]"
  by (simp add: log_error_def)

subsection \<open>Python sets and the projection\<close>

lemma set_py_list: "set (py_list h s) = set s"
  by (simp add: py_list_def)

lemma set_set_inter: "set (set_inter a b) = set a \<inter> set b"
  by (auto simp: set_inter_def)

lemma set_set_minus: "set (set_minus a b) = set a - set b"
  by (auto simp: set_minus_def)

lemma set_py_set: "set (py_set xs) = set xs"
  by (simp add: py_set_def)

lemma pos_Cons: "pos (y # ys) x = (if y = x then 0 else Suc (pos ys x))"
  by (simp add: pos_def)

lemma map_pos_Cons: "y \<notin> set ys \<Longrightarrow> map (pos (y # ys)) ys = map Suc (map (pos ys) ys)"
  by (induction ys) (auto simp: pos_Cons)

lemma map_pos: "distinct ys \<Longrightarrow> map (pos ys) ys = [0..<length ys]"
proof (induction ys)
  case Nil
  then show ?case by simp
next
  case (Cons y ys)
  then have "map (pos (y # ys)) ys = map Suc [0..<length ys]"
    by (simp add: map_pos_Cons)
  then have "map (pos (y # ys)) (y # ys) = 0 # map Suc [0..<length ys]"
    by (simp add: pos_Cons)
  also have "\<dots> = [0..<length (y # ys)]"
    by (simp add: upt_conv_Cons map_Suc_upt del: upt_Suc)
  finally show ?case .
qed

lemma pos_inj:
  "x \<in> set ys \<Longrightarrow> pos ys x = pos ys y \<Longrightarrow> x = y"
  by (induction ys) (auto simp: pos_Cons split: if_splits)

lemma filter_single:
  "distinct s \<Longrightarrow> k \<in> set s \<Longrightarrow> \<forall>x \<in> set s. P x = (x = k) \<Longrightarrow> filter P s = [k]"
  by (induction s) (auto simp: filter_empty_conv)

lemma py_list_any_order:
  assumes "distinct s" "distinct ys" "set ys = set s"
  shows "\<exists>h. py_list h s = ys"
proof -
  have m: "mset ys = mset s"
    using assms by (simp add: set_eq_iff_mset_eq_distinct)
  have e: "\<And>k x. k \<in> set ys \<Longrightarrow> (pos ys k = pos ys x) = (x = k)"
    using pos_inj by fastforce
  have f: "\<And>k. k \<in> set ys \<Longrightarrow>
        filter (\<lambda>x. pos ys k = pos ys x) ys = filter (\<lambda>x. pos ys k = pos ys x) s"
  proof -
    fix k assume k: "k \<in> set ys"
    have 1: "filter (\<lambda>x. pos ys k = pos ys x) ys = [k]"
      by (rule filter_single) (use assms(2) k e in simp_all)
    have 2: "filter (\<lambda>x. pos ys k = pos ys x) s = [k]"
      by (rule filter_single) (use assms k e in simp_all)
    from 1 2 show "filter (\<lambda>x. pos ys k = pos ys x) ys = filter (\<lambda>x. pos ys k = pos ys x) s"
      by simp
  qed
  have s: "sorted (map (pos ys) ys)"
    using assms(2) by (simp add: map_pos)
  from properties_for_sort_key[OF m f s] show ?thesis
    unfolding py_list_def by blast
qed

lemma map_of_project_aux:
  "map_of (foldl (\<lambda>d key. case map_of rcd key of None \<Rightarrow> d | Some v \<Rightarrow> AList.update key v d)
             acc common) k
   = (if k \<in> set common
      then (case map_of rcd k of None \<Rightarrow> map_of acc k | Some v \<Rightarrow> Some v)
      else map_of acc k)"
  by (induction common arbitrary: acc) (auto simp: update_conv' split: option.splits)

lemma map_of_project:
  "map_of (project common rcd) k = (if k \<in> set common then map_of rcd k else None)"
  by (simp add: project_def map_of_project_aux split: option.splits)

lemma distinct_project_aux:
  "distinct (map fst acc) \<Longrightarrow>
   distinct (map fst (foldl (\<lambda>d key. case map_of rcd key of None \<Rightarrow> d
                                      | Some v \<Rightarrow> AList.update key v d) acc common))"
  by (induction common arbitrary: acc) (auto simp: distinct_update split: option.splits)

lemma distinct_project: "distinct (map fst (project common rcd))"
  by (simp add: project_def distinct_project_aux)

subsection \<open>The create loop\<close>

lemma create_replies_Nil [simp]: "create_replies env hist c model [] = []"
  by (simp add: create_replies_def)

lemma length_create_replies [simp]:
  "length (create_replies env hist c model data) = length data"
  by (simp add: create_replies_def)

lemma create_replies_Cons:
  "create_replies env hist c model (r # rest) =
     create_reply env hist (create_call c model r)
       # create_replies env (hist @ [create_call c model r]) c model rest"
proof -
  have "[0..<length (r # rest)] = 0 # map Suc [0..<length rest]"
    by (simp add: upt_conv_Cons map_Suc_upt del: upt_Suc)
  then show ?thesis
    by (simp add: create_replies_def comp_def del: upt_Suc)
qed

lemma length_succeeded_failed: "length (succeeded rs) + length (failed rs) = length rs"
  by (induction rs rule: succeeded.induct) auto

lemma create_loop_spec:
  "create_loop env c model w acc data = (ids, w') \<Longrightarrow>
     calls w' = calls w @ map (create_call c model) data \<and>
     ids = acc @ succeeded (create_replies env (calls w) c model data) \<and>
     logged w' = logged w
       @ map (\<lambda>f. (''Error creating data on model '' @ model, RpcError f))
           (failed (create_replies env (calls w) c model data))"
proof (induction data arbitrary: w acc)
  case Nil
  then show ?case by simp
next
  case (Cons r rest)
  show ?case
  proof (cases "create_reply env (calls w) (create_call c model r)")
    case (Inl f)
    with Cons.prems have "create_loop env c model
        (log_error (''Error creating data on model '' @ model) (RpcError f)
           (w\<lparr>calls := calls w @ [create_call c model r]\<rparr>)) acc rest = (ids, w')"
      by (simp add: execute_def create_call_def)
    from Cons.IH[OF this] Inl show ?thesis
      by (simp add: create_replies_Cons)
  next
    case (Inr i)
    with Cons.prems have "create_loop env c model
        (w\<lparr>calls := calls w @ [create_call c model r]\<rparr>) (acc @ [i]) rest = (ids, w')"
      by (simp add: execute_def create_call_def)
    from Cons.IH[OF this] Inr show ?thesis
      by (simp add: create_replies_Cons)
  qed
qed

lemma create_data_on_model_spec:
  assumes "create_data_on_model env w c model data = (ids, w')"
  shows "calls w' = calls w @ map (create_call c model) data \<and>
     ids = succeeded (create_replies env (calls w) c model data) \<and>
     logged w' = logged w
       @ map (\<lambda>f. (''Error creating data on model '' @ model, RpcError f))
           (failed (create_replies env (calls w) c model data))"
proof (cases "data = []")
  case True
  with assms show ?thesis by (simp add: create_data_on_model_def)
next
  case False
  with assms have "create_loop env c model w [] data = (ids, w')"
    by (simp add: create_data_on_model_def)
  from create_loop_spec[OF this] show ?thesis by simp
qed

subsection \<open>The client operations, case by case\<close>

lemma authenticate_cases:
  "authenticate env w s =
     (case authenticate_reply env (calls w) (authenticate_call s) of
        Inl f \<Rightarrow> (Inl (RpcError f),
                  log_error ''Authentication error'' (RpcError f)
                    (w\<lparr>calls := calls w @ [authenticate_call s]\<rparr>))
      | Inr i \<Rightarrow> if truthy i then (Inr i, w\<lparr>calls := calls w @ [authenticate_call s]\<rparr>)
                 else (Inl AuthFailed,
                       log_error ''Authentication error'' AuthFailed
                         (w\<lparr>calls := calls w @ [authenticate_call s]\<rparr>)))"
  by (simp add: authenticate_def authenticate_call_def execute_def and_then_def
        log_and_reraise_def split: sum.splits)

lemma authenticate_calls:
  "authenticate env w s = (r, w') \<Longrightarrow> calls w' = calls w @ [authenticate_call s]"
  by (auto simp: authenticate_cases split: sum.splits if_splits)

lemma OdooClient_init_cases:
  "OdooClient_init env w s =
     (case server_proxy env (url s @ ''/xmlrpc/2/common'') of
        Some m \<Rightarrow> (Inl (ProxyError m), w)
      | None \<Rightarrow>
          (case server_proxy env (url s @ ''/xmlrpc/2/object'') of
             Some m \<Rightarrow> (Inl (ProxyError m), w)
           | None \<Rightarrow>
               (case authenticate env w s of
                  (Inl e, w1) \<Rightarrow> (Inl e, w1)
                | (Inr i, w1) \<Rightarrow>
                    (Inr \<lparr>url = url s, db = db s, username = username s,
                          password = password s, uid = i\<rparr>, w1))))"
  by (simp add: OdooClient_init_def and_then_def split: option.splits)

lemma OdooClient_init_Inr:
  "OdooClient_init env w s = (Inr c, w') \<Longrightarrow>
     truthy (uid c) \<and> authenticate_reply env (calls w) (authenticate_call s) = Inr (uid c) \<and>
     url c = url s \<and> db c = db s \<and> username c = username s \<and> password c = password s \<and>
     calls w' = calls w @ [authenticate_call s] \<and> logged w' = logged w \<and>
     (\<forall>u \<in> set (proxy_uris s). server_proxy env u = None)"
  by (auto simp: OdooClient_init_cases authenticate_cases proxy_uris_def
        split: sum.splits if_splits option.splits)

lemma OdooClient_init_calls:
  "OdooClient_init env w s = (r, w') \<Longrightarrow>
     calls w' = calls w \<or> calls w' = calls w @ [authenticate_call s]"
  by (cases "authenticate env w s")
     (auto simp: OdooClient_init_cases split: sum.splits option.splits
        dest: authenticate_calls)

lemma get_filtered_fields_cases:
  "get_filtered_fields env w c model ex =
     (case fields_get_reply env (calls w) (fields_get_call c model) of
        Inl f \<Rightarrow> (Inl (RpcError f),
                  log_error ''Error getting filtered fields'' (RpcError f)
                    (w\<lparr>calls := calls w @ [fields_get_call c model]\<rparr>))
      | Inr info \<Rightarrow>
          (case filter_fields (or_default ex default_exclude_types) info of
             Inl e \<Rightarrow> (Inl e, log_error ''Error getting filtered fields'' e
                               (w\<lparr>calls := calls w @ [fields_get_call c model]\<rparr>))
           | Inr ks \<Rightarrow> (Inr ks, w\<lparr>calls := calls w @ [fields_get_call c model]\<rparr>)))"
  by (simp add: get_filtered_fields_def fields_get_call_def execute_def and_then_def
        log_and_reraise_def split: sum.splits)

lemma get_filtered_fields_calls:
  "get_filtered_fields env w c model ex = (r, w') \<Longrightarrow>
     calls w' = calls w @ [fields_get_call c model]"
  by (auto simp: get_filtered_fields_cases split: sum.splits)

lemma get_fields_from_model_cases:
  "get_fields_from_model env w c model =
     (case fields_get_reply env (calls w) (fields_get_call c model) of
        Inl f \<Rightarrow> (Inl (RpcError f),
                  log_error ''Error getting fields from model'' (RpcError f)
                    (w\<lparr>calls := calls w @ [fields_get_call c model]\<rparr>))
      | Inr info \<Rightarrow> (Inr (map fst info), w\<lparr>calls := calls w @ [fields_get_call c model]\<rparr>))"
  by (simp add: get_fields_from_model_def fields_get_call_def execute_def and_then_def
        log_and_reraise_def split: sum.splits)

lemma get_fields_from_model_calls:
  "get_fields_from_model env w c model = (r, w') \<Longrightarrow>
     calls w' = calls w @ [fields_get_call c model]"
  by (auto simp: get_fields_from_model_cases split: sum.splits)

lemma filter_fields_Inr:
  "filter_fields ex info = Inr ks \<Longrightarrow>
     ks = map fst (filter (\<lambda>(k, v). \<not> has_type_in ex v) info) \<and>
     (\<forall>(k, v) \<in> set info. map_of v ''type'' \<noteq> None)"
  by (induction info arbitrary: ks)
     (auto simp: has_type_in_def split: option.splits sum.splits if_splits)

text \<open>
  Away from the empty custom list, the filtered fields and the fields whose type is in
  the exclusion set make up the schema.
\<close>

lemma filtered_and_excluded_make_up_schema:
  assumes "fields_get_reply env (calls w) (fields_get_call c model) = Inr info"
      and "get_filtered_fields env w c model ex = (Inr fl, w1)"
      and "get_fields_from_model env w c model = (Inr all_fields, w2)"
      and "ex \<noteq> Some []"
      and "excl = (case ex of None \<Rightarrow> [''many2many'', ''one2many'', ''many2one''] | Some e \<Rightarrow> e)"
  shows "set fl \<union> set (fields_of_types excl info) = set all_fields"
    and "distinct (map fst info) \<Longrightarrow> set fl \<inter> set (fields_of_types excl info) = {}"
proof -
  have e: "or_default ex default_exclude_types = excl"
    using assms(4,5) by (auto simp: or_default_def default_exclude_types_def split: option.splits)
  from assms(1,2) have ff: "filter_fields excl info = Inr fl"
    by (auto simp: get_filtered_fields_cases e split: sum.splits)
  from assms(1,3) have al: "all_fields = map fst info"
    by (auto simp: get_fields_from_model_cases)
  from filter_fields_Inr[OF ff]
  have fl: "fl = map fst (filter (\<lambda>(k, v). \<not> has_type_in excl v) info)"
    by simp
  show "set fl \<union> set (fields_of_types excl info) = set all_fields"
    unfolding fl al fields_of_types_def by force
  show "distinct (map fst info) \<Longrightarrow> set fl \<inter> set (fields_of_types excl info) = {}"
    unfolding fl fields_of_types_def
    by (auto simp: distinct_map dest: inj_onD)
qed

lemma get_data_from_model_calls:
  assumes "get_data_from_model env w c model flds domain = (r, w')"
  shows "\<exists>new. calls w' = calls w @ new \<and> (\<forall>q \<in> set new. \<not> is_create q \<and> call_uid q = Some (uid c))"
proof (cases "falsy flds")
  case True
  obtain r1 w1 where g: "get_filtered_fields env w c model None = (r1, w1)"
    by (cases "get_filtered_fields env w c model None")
  note c1 = get_filtered_fields_calls[OF g]
  show ?thesis
  proof (cases r1)
    case (Inl e)
    with assms True g have "w' = w1"
      by (simp add: get_data_from_model_def and_then_def)
    with c1 show ?thesis by (simp add: fields_get_call_def)
  next
    case (Inr fs)
    with assms True g have "calls w' = calls w1 @ [SearchRead (url c) (db c) (uid c) (password c) model (or_default domain []) fs]"
      by (auto simp: get_data_from_model_def Let_def and_then_def log_and_reraise_def execute_def
            split: sum.splits)
    with c1 show ?thesis by (simp add: fields_get_call_def)
  qed
next
  case False
  with assms have "calls w' = calls w @ [SearchRead (url c) (db c) (uid c) (password c) model (or_default domain []) (the flds)]"
    by (auto simp: get_data_from_model_def Let_def and_then_def log_and_reraise_def execute_def
            split: sum.splits)
  then show ?thesis by simp
qed

subsection \<open>The workflows, phase by phase\<close>

lemma no_create_refl [simp]: "no_create w w"
  by (simp add: no_create_def)

lemma no_create_trans: "no_create w w1 \<Longrightarrow> no_create w1 w2 \<Longrightarrow> no_create w w2"
  by (auto simp: no_create_def)

lemma no_create_log_error [simp]: "no_create w (log_error msg e w') = no_create w w'"
  by (simp add: no_create_def)

lemma no_create_issued: "no_create w w' \<Longrightarrow> filter is_create (issued w w') = []"
  by (auto simp: no_create_def issued_def)

lemma no_create_log_and_reraise [simp]:
  "no_create w (snd (log_and_reraise msg r)) = no_create w (snd r)"
  by (cases r) (auto simp: log_and_reraise_def split: sum.splits)

lemma no_create_and_then:
  assumes "no_create w (snd r)"
      and "\<And>x w1. r = (Inr x, w1) \<Longrightarrow> no_create w1 (snd (f x w1))"
  shows "no_create w (snd (and_then r f))"
proof (cases r)
  case (Pair x w1)
  with assms show ?thesis
    by (cases x) (auto simp: and_then_def intro: no_create_trans)
qed

lemma OdooClient_init_no_create: "no_create w (snd (OdooClient_init env w s))"
  using OdooClient_init_calls[of env w s]
  by (cases "OdooClient_init env w s") (auto simp: no_create_def authenticate_call_def)

lemma get_filtered_fields_no_create: "no_create w (snd (get_filtered_fields env w c model ex))"
  using get_filtered_fields_calls[of env w c model ex]
  by (cases "get_filtered_fields env w c model ex") (auto simp: no_create_def fields_get_call_def)

lemma get_data_from_model_no_create:
  "no_create w (snd (get_data_from_model env w c model flds domain))"
  using get_data_from_model_calls[of env w c model flds domain]
  by (cases "get_data_from_model env w c model flds domain") (auto simp: no_create_def)

lemma compare_models_no_create:
  "no_create w (snd (compare_models_between_servers env h w s1 s2 model))"
  unfolding compare_models_between_servers_def
  by (auto intro!: no_create_and_then
        simp: OdooClient_init_no_create get_filtered_fields_no_create)

lemma compare_models_Inr:
  assumes "compare_models_between_servers env h w s1 s2 model = (Inr cmp, w')"
  shows "\<exists>fields1 fields2. cmp = compare_field_lists h fields1 fields2"
  using assms
  by (auto simp: compare_models_between_servers_def and_then_def log_and_reraise_def
        split: sum.splits prod.splits)

lemma migrate_success:
  assumes "OdooClient_init env w s1 = (Inr c1, w1)"
      and "get_data_from_model env w1 c1 model flds domain = (Inr data, w2)"
      and "OdooClient_init env w2 s2 = (Inr c2, w3)"
      and "compare_models_between_servers env h w3 s1 s2 model = (Inr cmp, w4)"
  shows "migrate_data_between_servers env h w s1 s2 model flds domain =
           (Inr (fst (create_data_on_model env w4 c2 model (map (project (common_fields cmp)) data))),
            snd (create_data_on_model env w4 c2 model (map (project (common_fields cmp)) data)))"
  using assms
  by (simp add: migrate_data_between_servers_def and_then_def log_and_reraise_def
        split: prod.splits)

lemma migrate_read_failure:
  assumes "OdooClient_init env w s1 = (Inr c1, w1)"
      and "get_data_from_model env w1 c1 model flds domain = (Inl e, w2)"
  shows "migrate_data_between_servers env h w s1 s2 model flds domain =
           (Inl e, log_error ''Error migrating data between servers'' e w2)"
  using assms
  by (simp add: migrate_data_between_servers_def and_then_def log_and_reraise_def)

lemma issued_append: "calls w' = calls w @ new \<Longrightarrow> issued w w' = new"
  by (simp add: issued_def)

lemma issued_log_error [simp]: "issued w (log_error msg e w') = issued w w'"
  by (simp add: issued_def)

lemma create_data_on_model_issued:
  "issued w (snd (create_data_on_model env w c model data)) = map (create_call c model) data"
  using create_data_on_model_spec[of env w c model data]
  by (cases "create_data_on_model env w c model data") (simp add: issued_def)

lemma migrate_init2_failure:
  assumes "OdooClient_init env w s1 = (Inr c1, w1)"
      and "get_data_from_model env w1 c1 model flds domain = (Inr data, w2)"
      and "OdooClient_init env w2 s2 = (Inl e, w3)"
  shows "migrate_data_between_servers env h w s1 s2 model flds domain =
           (Inl e, log_error ''Error migrating data between servers'' e w3)"
  using assms
  by (simp add: migrate_data_between_servers_def and_then_def log_and_reraise_def)

lemma migrate_compare_failure:
  assumes "OdooClient_init env w s1 = (Inr c1, w1)"
      and "get_data_from_model env w1 c1 model flds domain = (Inr data, w2)"
      and "OdooClient_init env w2 s2 = (Inr c2, w3)"
      and "compare_models_between_servers env h w3 s1 s2 model = (Inl e, w4)"
  shows "migrate_data_between_servers env h w s1 s2 model flds domain =
           (Inl e, log_error ''Error migrating data between servers'' e w4)"
  using assms
  by (simp add: migrate_data_between_servers_def and_then_def log_and_reraise_def)

lemma get_data_from_model_fault:
  assumes "if falsy flds then get_filtered_fields env w c model None = (Inr fs, w1)
           else fs = the flds \<and> w1 = w"
      and "search_read_reply env (calls w1) (search_read_call c model domain fs) = Inl f"
  shows "get_data_from_model env w c model flds domain
           = (Inl (RpcError f),
              log_error ''Error getting data from model'' (RpcError f)
                (w1\<lparr>calls := calls w1 @ [search_read_call c model domain fs]\<rparr>))"
proof -
  have d: "or_default domain [] = (case domain of None \<Rightarrow> [] | Some d \<Rightarrow> d)"
    by (simp add: or_default_def split: option.splits)
  from assms show ?thesis
    by (auto simp: get_data_from_model_def Let_def and_then_def log_and_reraise_def execute_def
          search_read_call_def d split: if_splits)
qed

lemmas scenario_defs =
  scenario_def check_protocol_def world0_def after_def server_a_def server_b_def client_a_def client_b_def
  schema_a_def schema_b_def vip_def trace_read_def trace_compare_def first_seen_def
  authenticate_call_def fields_get_call_def search_read_call_def create_call_def

lemmas run_defs =
  OdooClient_init_def authenticate_def get_filtered_fields_def get_fields_from_model_def
  get_data_from_model_def compare_models_between_servers_def compare_field_lists_def
  create_data_on_model_def execute_def and_then_def log_and_reraise_def log_error_def
  or_default_def falsy_def default_exclude_types_def py_set_def py_list_def set_minus_def
  set_inter_def Let_def

section \<open>The claims of the specification\<close>

text \<open>
  Claim C1. For every record and every list of common fields, the projection maps
  exactly the keys that are both common fields and keys of the record, each to the
  value the record has for it; every other key is dropped, and no key occurs twice.
  When the two clients are constructed and the read and the comparison succeed, the
  create calls of the migration carry exactly these projections of the source records,
  one per record and in order.
\<close>

theorem projection_onto_common_fields:
  assumes "OdooClient_init env w s1 = (Inr c1, w1)"
      and "get_data_from_model env w1 c1 model flds domain = (Inr data, w2)"
      and "OdooClient_init env w2 s2 = (Inr c2, w3)"
      and "compare_models_between_servers env h w3 s1 s2 model = (Inr cmp, w4)"
  shows "issued w4 (snd (migrate_data_between_servers env h w s1 s2 model flds domain))
           = map (\<lambda>rcd. create_call c2 model (project (common_fields cmp) rcd)) data
       \<and> map_of (project common rcd) k = (if k \<in> set common then map_of rcd k else None)
       \<and> dom (map_of (project common rcd)) = set common \<inter> dom (map_of rcd)
       \<and> distinct (map fst (project common rcd))"
proof -
  have "dom (map_of (project common rcd)) = set common \<inter> dom (map_of rcd)"
    by (auto simp: dom_def map_of_project split: if_splits)
  then show ?thesis
    by (simp add: migrate_success[OF assms] create_data_on_model_issued comp_def
          map_of_project distinct_project)
qed

text \<open>
  The record \<^verbatim>\<open>{a: 1, b: 2, c: 3}\<close> projected onto \<^verbatim>\<open>{a, c}\<close>, and the
  migration of the record \<^verbatim>\<open>{name: "VIP", color: 5, active: true}\<close> between the two
  servers of the scenario.
\<close>

theorem projection_onto_common_fields_witness:
  "OdooClient_init (scenario (VInt 2) schema_a schema_b (Inr [vip])) world0 server_a
     = (Inr client_a, after [authenticate_call server_a])
   \<and> get_data_from_model (scenario (VInt 2) schema_a schema_b (Inr [vip]))
        (after [authenticate_call server_a]) client_a ''crm.tag'' None None
     = (Inr [vip], after trace_read)
   \<and> OdooClient_init (scenario (VInt 2) schema_a schema_b (Inr [vip])) (after trace_read)
        server_b
     = (Inr client_b, after (trace_read @ [authenticate_call server_b]))
   \<and> compare_models_between_servers (scenario (VInt 2) schema_a schema_b (Inr [vip]))
        first_seen (after (trace_read @ [authenticate_call server_b])) server_a server_b
        ''crm.tag''
     = (Inr \<lparr>unique_to_list_1 = [''active''], unique_to_list_2 = [''description''],
             common_fields = [''name'', ''color'']\<rparr>,
        after (trace_read @ [authenticate_call server_b] @ trace_compare))
   \<and> issued (after (trace_read @ [authenticate_call server_b] @ trace_compare))
        (snd (migrate_data_between_servers (scenario (VInt 2) schema_a schema_b (Inr [vip]))
                first_seen world0 server_a server_b ''crm.tag'' None None))
     = [create_call client_b ''crm.tag'' [(''name'', VStr ''VIP''), (''color'', VInt 5)]]
   \<and> project [''a'', ''c''] [(''a'', VInt 1), (''b'', VInt 2), (''c'', VInt 3)]
     = [(''a'', VInt 1), (''c'', VInt 3)]
   \<and> dom (map_of (project [''a'', ''c''] [(''a'', VInt 1), (''b'', VInt 2), (''c'', VInt 3)]))
     = {''a'', ''c''}"
proof -
  have h1: "OdooClient_init (scenario (VInt 2) schema_a schema_b (Inr [vip])) world0 server_a
     = (Inr client_a, after [authenticate_call server_a])"
    by (simp add: run_defs scenario_defs)
  have h2: "get_data_from_model (scenario (VInt 2) schema_a schema_b (Inr [vip]))
        (after [authenticate_call server_a]) client_a ''crm.tag'' None None
     = (Inr [vip], after trace_read)"
    by (simp add: run_defs scenario_defs)
  have h3: "OdooClient_init (scenario (VInt 2) schema_a schema_b (Inr [vip]))
        (after trace_read) server_b
     = (Inr client_b, after (trace_read @ [authenticate_call server_b]))"
    by (simp add: run_defs scenario_defs)
  have h4: "compare_models_between_servers (scenario (VInt 2) schema_a schema_b (Inr [vip]))
        first_seen (after (trace_read @ [authenticate_call server_b])) server_a server_b
        ''crm.tag''
     = (Inr \<lparr>unique_to_list_1 = [''active''], unique_to_list_2 = [''description''],
             common_fields = [''name'', ''color'']\<rparr>,
        after (trace_read @ [authenticate_call server_b] @ trace_compare))"
    by (simp add: run_defs scenario_defs)
  have p: "project [''a'', ''c''] [(''a'', VInt 1), (''b'', VInt 2), (''c'', VInt 3)]
     = [(''a'', VInt 1), (''c'', VInt 3)]"
    by (simp add: project_def)
  have v: "project [''name'', ''color''] vip = [(''name'', VStr ''VIP''), (''color'', VInt 5)]"
    by (simp add: project_def vip_def)
  from projection_onto_common_fields[OF h1 h2 h3 h4,
      of "[''a'', ''c'']" "[(''a'', VInt 1), (''b'', VInt 2), (''c'', VInt 3)]" "''a''"]
    h1 h2 h3 h4 p v
  show ?thesis by auto
qed

text \<open>
  Claim C2. \<^verbatim>\<open>create_data_on_model\<close> issues exactly one create call per input
  record, in input order, whatever the replies are. A call that fails is logged and
  the loop goes on with the remaining records; nothing is rolled back. The returned
  list holds exactly the identifiers of the calls that succeeded, in input order, the
  log gains one line per failed call, and successes and failures add up to the number
  of records.
\<close>

theorem create_data_on_model_per_record_isolation:
  assumes "create_data_on_model env w c model data = (ids, w')"
  shows "issued w w' = map (create_call c model) data
       \<and> ids = succeeded (create_replies env (calls w) c model data)
       \<and> logged w' = logged w
           @ map (\<lambda>f. (''Error creating data on model '' @ model, RpcError f))
               (failed (create_replies env (calls w) c model data))
       \<and> length ids + length (failed (create_replies env (calls w) c model data))
           = length data"
  using create_data_on_model_spec[OF assms]
    length_succeeded_failed[of "create_replies env (calls w) c model data"]
  by (simp add: issued_def)

text \<open>Three records, the second of which is rejected: two identifiers, one log line.\<close>

theorem create_data_on_model_per_record_isolation_witness:
  "create_data_on_model (scenario (VInt 2) schema_a schema_b (Inr [])) world0 client_b
         ''crm.tag'' three_records
       = ([0, 2],
          \<lparr>calls = map (create_call client_b ''crm.tag'') three_records,
           logged = [(''Error creating data on model crm.tag'', RpcError ''rejected'')]\<rparr>)
   \<and> create_replies (scenario (VInt 2) schema_a schema_b (Inr [])) (calls world0)
        client_b ''crm.tag'' three_records = [Inr 0, Inl ''rejected'', Inr 2]
   \<and> [0, 2] = succeeded (create_replies (scenario (VInt 2) schema_a schema_b (Inr []))
                  (calls world0) client_b ''crm.tag'' three_records)
   \<and> length [0, 2 :: int]
        + length (failed (create_replies (scenario (VInt 2) schema_a schema_b (Inr []))
                   (calls world0) client_b ''crm.tag'' three_records))
      = length three_records"
proof -
  have run: "create_data_on_model (scenario (VInt 2) schema_a schema_b (Inr [])) world0 client_b
         ''crm.tag'' three_records
       = ([0, 2],
          \<lparr>calls = map (create_call client_b ''crm.tag'') three_records,
           logged = [(''Error creating data on model crm.tag'', RpcError ''rejected'')]\<rparr>)"
    by (simp add: create_data_on_model_def three_records_def scenario_def world0_def
          client_b_def execute_def log_error_def create_call_def)
  have replies: "create_replies (scenario (VInt 2) schema_a schema_b (Inr [])) (calls world0)
        client_b ''crm.tag'' three_records = [Inr 0, Inl ''rejected'', Inr 2]"
    by (simp add: world0_def three_records_def create_replies_Cons scenario_def
          create_call_def client_b_def)
  from create_data_on_model_per_record_isolation[OF run] run replies show ?thesis
    by simp
qed

text \<open>
  Claim C3. For every exclusion set, default or custom, the fields returned by
  \<^verbatim>\<open>get_filtered_fields\<close> for that set together with the fields whose type is in
  that set are the fields returned by \<^verbatim>\<open>get_fields_from_model\<close>. The code breaks
  this for the empty custom exclusion list, which it replaces by the default relational
  set although its documentation promises the fields not in \<^verbatim>\<open>exclude_types\<close>: on
  the schema of server A the call with the empty list returns the list without
  \<^verbatim>\<open>partner_id\<close>, no field has a type in the empty set, and the union misses
  \<^verbatim>\<open>partner_id\<close>, which \<^verbatim>\<open>get_fields_from_model\<close> returns.
\<close>

theorem partition_fails_for_empty_exclusion_list:
  "fields_get_reply (scenario (VInt 2) schema_a schema_b (Inr [])) (calls world0)
       (fields_get_call client_a ''crm.tag'') = Inr schema_a
   \<and> get_filtered_fields (scenario (VInt 2) schema_a schema_b (Inr [])) world0 client_a
       ''crm.tag'' (Some [])
     = (Inr [''name'', ''color'', ''active''], after [fields_get_call client_a ''crm.tag''])
   \<and> get_fields_from_model (scenario (VInt 2) schema_a schema_b (Inr [])) world0 client_a
       ''crm.tag''
     = (Inr [''name'', ''color'', ''active'', ''partner_id''],
        after [fields_get_call client_a ''crm.tag''])
   \<and> fields_of_types [] schema_a = []
   \<and> set [''name'', ''color'', ''active''] \<union> set (fields_of_types [] schema_a)
       \<noteq> set [''name'', ''color'', ''active'', ''partner_id'']"
proof -
  have "''partner_id'' \<notin> set [''name'', ''color'', ''active''] \<union> set []"
    by simp
  then have "set [''name'', ''color'', ''active''] \<union> set []
               \<noteq> set [''name'', ''color'', ''active'', ''partner_id'']"
    by (metis list.set_intros(1,2))
  then show ?thesis
    by (simp add: run_defs scenario_defs fields_of_types_def has_type_in_def)
qed

text \<open>
  Claim C4. With the default exclusion set, no field returned by
  \<^verbatim>\<open>get_filtered_fields\<close> is a relational field of the schema: the returned names
  and the names of the fields of type many2many, one2many or many2one are disjoint
  (the schema is a dictionary, so no name occurs twice in it).
\<close>

theorem default_filter_excludes_relational_fields:
  assumes "fields_get_reply env (calls w) (fields_get_call c model) = Inr info"
      and "get_filtered_fields env w c model None = (Inr fl, w1)"
      and "distinct (map fst info)"
  shows "set fl \<inter> set (fields_of_types [''many2many'', ''one2many'', ''many2one''] info) = {}"
proof -
  from assms(1,2)
  have ff: "filter_fields [''many2many'', ''one2many'', ''many2one''] info = Inr fl"
    by (auto simp: get_filtered_fields_cases or_default_def default_exclude_types_def
          split: sum.splits)
  from filter_fields_Inr[OF ff]
  have fl: "fl = map fst (filter (\<lambda>(k, v).
                    \<not> has_type_in [''many2many'', ''one2many'', ''many2one''] v) info)"
    by simp
  from assms(3) show ?thesis
    unfolding fl fields_of_types_def
    by (auto simp: distinct_map dest: inj_onD)
qed

text \<open>The schema of server A: \<^verbatim>\<open>partner_id\<close> is relational and is not listed.\<close>

theorem default_filter_excludes_relational_fields_witness:
  "fields_get_reply (scenario (VInt 2) schema_a schema_b (Inr [])) (calls world0)
       (fields_get_call client_a ''crm.tag'') = Inr schema_a
   \<and> get_filtered_fields (scenario (VInt 2) schema_a schema_b (Inr [])) world0 client_a
       ''crm.tag'' None
     = (Inr [''name'', ''color'', ''active''], after [fields_get_call client_a ''crm.tag''])
   \<and> distinct (map fst schema_a)
   \<and> fields_of_types [''many2many'', ''one2many'', ''many2one''] schema_a = [''partner_id'']
   \<and> set [''name'', ''color'', ''active'']
        \<inter> set (fields_of_types [''many2many'', ''one2many'', ''many2one''] schema_a) = {}"
proof -
  have h1: "fields_get_reply (scenario (VInt 2) schema_a schema_b (Inr [])) (calls world0)
       (fields_get_call client_a ''crm.tag'') = Inr schema_a"
    by (simp add: scenario_defs)
  have h2: "get_filtered_fields (scenario (VInt 2) schema_a schema_b (Inr [])) world0 client_a
       ''crm.tag'' None
     = (Inr [''name'', ''color'', ''active''], after [fields_get_call client_a ''crm.tag''])"
    by (simp add: run_defs scenario_defs)
  have d: "distinct (map fst schema_a)"
    by (simp add: schema_a_def)
  have f: "fields_of_types [''many2many'', ''one2many'', ''many2one''] schema_a
             = [''partner_id'']"
    by (simp add: fields_of_types_def has_type_in_def schema_a_def)
  from default_filter_excludes_relational_fields[OF h1 h2 d] h1 h2 d f
  show ?thesis by simp
qed

text \<open>
  Claim C5. The comparison is symmetric in its common component: comparing \<open>a\<close> with
  \<open>b\<close> and \<open>b\<close> with \<open>a\<close> gives the same set of common fields (the fields of both
  lists), in whatever order Python enumerates the sets. The fields unique to either
  list are disjoint from the common fields.
\<close>

theorem compare_field_lists_symmetric_disjoint:
  "set (common_fields (compare_field_lists h a b))
     = set (common_fields (compare_field_lists h' b a))
   \<and> set (common_fields (compare_field_lists h a b)) = set a \<inter> set b
   \<and> set (unique_to_list_1 (compare_field_lists h a b))
        \<inter> set (common_fields (compare_field_lists h a b)) = {}
   \<and> set (unique_to_list_2 (compare_field_lists h a b))
        \<inter> set (common_fields (compare_field_lists h a b)) = {}"
  by (auto simp: compare_field_lists_def Let_def set_py_list set_set_inter set_set_minus
        set_py_set)

text \<open>
  Claim C6. \<^verbatim>\<open>create_data_on_model\<close> on an empty record sequence returns the empty
  identifier sequence and leaves the world as it is: no remote call, no log line. When
  the source read of a migration returns no record, the migration issues no create
  call, however its later steps end; the only identifier sequence it can return is the
  empty one, and it does return it when the destination client is constructed and the
  comparison succeeds.
\<close>

theorem empty_input_issues_no_create:
  assumes "OdooClient_init env w s1 = (Inr c1, w1)"
      and "get_data_from_model env w1 c1 model flds domain = (Inr [], w2)"
  shows "create_data_on_model env' w' c' model' [] = ([], w')
       \<and> filter is_create
           (issued w (snd (migrate_data_between_servers env h w s1 s2 model flds domain))) = []
       \<and> (\<forall>ids. fst (migrate_data_between_servers env h w s1 s2 model flds domain) = Inr ids
                  \<longrightarrow> ids = [])
       \<and> (\<forall>c2 w3 cmp w4.
             OdooClient_init env w2 s2 = (Inr c2, w3) \<longrightarrow>
             compare_models_between_servers env h w3 s1 s2 model = (Inr cmp, w4) \<longrightarrow>
             migrate_data_between_servers env h w s1 s2 model flds domain = (Inr [], w4))"
proof -
  let ?m = "migrate_data_between_servers env h w s1 s2 model flds domain"
  have empty: "\<And>e v c m. create_data_on_model e v c m [] = ([], v)"
    by (simp add: create_data_on_model_def)
  have "no_create w w1"
    using OdooClient_init_no_create[of w env s1] assms(1) by simp
  moreover have "no_create w1 w2"
    using get_data_from_model_no_create[of w1 env c1 model flds domain] assms(2) by simp
  ultimately have q2: "no_create w w2"
    by (rule no_create_trans)
  obtain r3 w3 where i2: "OdooClient_init env w2 s2 = (r3, w3)"
    by (cases "OdooClient_init env w2 s2")
  have q3: "no_create w w3"
    using OdooClient_init_no_create[of w2 env s2] i2 q2 by (auto intro: no_create_trans)
  have main: "filter is_create (issued w (snd ?m)) = []
                \<and> (\<forall>ids. fst ?m = Inr ids \<longrightarrow> ids = [])"
  proof (cases r3)
    case (Inl e)
    with i2 have "?m = (Inl e, log_error ''Error migrating data between servers'' e w3)"
      using migrate_init2_failure[OF assms] by simp
    with q3 show ?thesis
      by (simp add: no_create_issued)
  next
    case c2: (Inr c2)
    obtain r4 w4 where cm: "compare_models_between_servers env h w3 s1 s2 model = (r4, w4)"
      by (cases "compare_models_between_servers env h w3 s1 s2 model")
    have q4: "no_create w w4"
      using compare_models_no_create[of w3 env h s1 s2 model] cm q3
      by (auto intro: no_create_trans)
    show ?thesis
    proof (cases r4)
      case (Inl e)
      with i2 c2 cm have "?m = (Inl e, log_error ''Error migrating data between servers'' e w4)"
        using migrate_compare_failure[OF assms] by simp
      with q4 show ?thesis
        by (simp add: no_create_issued)
    next
      case (Inr cmp)
      with i2 c2 cm have "?m = (Inr [], w4)"
        using migrate_success[OF assms] by (simp add: empty)
      with q4 show ?thesis
        by (simp add: no_create_issued)
    qed
  qed
  have "\<And>c2 w3 cmp w4.
          OdooClient_init env w2 s2 = (Inr c2, w3) \<Longrightarrow>
          compare_models_between_servers env h w3 s1 s2 model = (Inr cmp, w4) \<Longrightarrow>
          ?m = (Inr [], w4)"
    using migrate_success[OF assms] by (simp add: empty)
  with empty main show ?thesis by blast
qed

text \<open>The scenario with a source that holds no matching record.\<close>

theorem empty_input_issues_no_create_witness:
  "OdooClient_init (scenario (VInt 2) schema_a schema_b (Inr [])) world0 server_a
     = (Inr client_a, after [authenticate_call server_a])
   \<and> get_data_from_model (scenario (VInt 2) schema_a schema_b (Inr []))
        (after [authenticate_call server_a]) client_a ''crm.tag'' None None
     = (Inr [], after trace_read)
   \<and> OdooClient_init (scenario (VInt 2) schema_a schema_b (Inr [])) (after trace_read)
        server_b
     = (Inr client_b, after (trace_read @ [authenticate_call server_b]))
   \<and> compare_models_between_servers (scenario (VInt 2) schema_a schema_b (Inr []))
        first_seen (after (trace_read @ [authenticate_call server_b])) server_a server_b
        ''crm.tag''
     = (Inr \<lparr>unique_to_list_1 = [''active''], unique_to_list_2 = [''description''],
             common_fields = [''name'', ''color'']\<rparr>,
        after (trace_read @ [authenticate_call server_b] @ trace_compare))
   \<and> migrate_data_between_servers (scenario (VInt 2) schema_a schema_b (Inr []))
        first_seen world0 server_a server_b ''crm.tag'' None None
     = (Inr [], after (trace_read @ [authenticate_call server_b] @ trace_compare))
   \<and> filter is_create (trace_read @ [authenticate_call server_b] @ trace_compare) = []
   \<and> create_data_on_model (scenario (VInt 2) schema_a schema_b (Inr [])) world0 client_b
        ''crm.tag'' [] = ([], world0)"
proof -
  have h1: "OdooClient_init (scenario (VInt 2) schema_a schema_b (Inr [])) world0 server_a
     = (Inr client_a, after [authenticate_call server_a])"
    by (simp add: run_defs scenario_defs)
  have h2: "get_data_from_model (scenario (VInt 2) schema_a schema_b (Inr []))
        (after [authenticate_call server_a]) client_a ''crm.tag'' None None
     = (Inr [], after trace_read)"
    by (simp add: run_defs scenario_defs)
  have h3: "OdooClient_init (scenario (VInt 2) schema_a schema_b (Inr []))
        (after trace_read) server_b
     = (Inr client_b, after (trace_read @ [authenticate_call server_b]))"
    by (simp add: run_defs scenario_defs)
  have h4: "compare_models_between_servers (scenario (VInt 2) schema_a schema_b (Inr []))
        first_seen (after (trace_read @ [authenticate_call server_b])) server_a server_b
        ''crm.tag''
     = (Inr \<lparr>unique_to_list_1 = [''active''], unique_to_list_2 = [''description''],
             common_fields = [''name'', ''color'']\<rparr>,
        after (trace_read @ [authenticate_call server_b] @ trace_compare))"
    by (simp add: run_defs scenario_defs)
  note t = empty_input_issues_no_create[OF h1 h2,
      where env' = "scenario (VInt 2) schema_a schema_b (Inr [])" and w' = world0
        and c' = client_b and model' = "''crm.tag''" and h = first_seen and ?s2.0 = server_b]
  from t h3 h4
  have m: "migrate_data_between_servers (scenario (VInt 2) schema_a schema_b (Inr []))
        first_seen world0 server_a server_b ''crm.tag'' None None
     = (Inr [], after (trace_read @ [authenticate_call server_b] @ trace_compare))"
    by blast
  from t m have f: "filter is_create
      (issued world0 (after (trace_read @ [authenticate_call server_b] @ trace_compare))) = []"
    by simp
  have i: "issued world0 (after (trace_read @ [authenticate_call server_b] @ trace_compare))
             = trace_read @ [authenticate_call server_b] @ trace_compare"
    by (simp add: issued_def world0_def after_def)
  from t h1 h2 h3 h4 m f i show ?thesis by simp
qed

text \<open>
  Claim C7. Whenever the source client is constructed and the source read
  (\<^verbatim>\<open>get_data_from_model\<close>) fails, for whatever reason, the migration raises the same
  error after logging it: it returns no identifier and no data, and it has issued no
  create call. The read fails, returning no data, when its search-and-read call fails
  (on the field list the caller gives or, when that is absent or empty, on the filtered
  field list of the source), and when the introspection that computes the default field
  list fails, by a fault of the call or by a descriptor without a type.
\<close>

theorem read_failure_aborts_migration:
  assumes "OdooClient_init env w s1 = (Inr c1, w1)"
      and "get_data_from_model env w1 c1 model flds domain = (r, w2)"
  shows "(\<forall>e. r = Inl e \<longrightarrow>
            migrate_data_between_servers env h w s1 s2 model flds domain
              = (Inl e, log_error ''Error migrating data between servers'' e w2)
            \<and> filter is_create
                (issued w (snd (migrate_data_between_servers env h w s1 s2 model flds domain)))
                = [])
       \<and> (\<forall>fs v f.
            (if falsy flds then get_filtered_fields env w1 c1 model None = (Inr fs, v)
             else fs = the flds \<and> v = w1) \<longrightarrow>
            search_read_reply env (calls v) (search_read_call c1 model domain fs) = Inl f \<longrightarrow>
            r = Inl (RpcError f)
            \<and> w2 = log_error ''Error getting data from model'' (RpcError f)
                     (v\<lparr>calls := calls v @ [search_read_call c1 model domain fs]\<rparr>))
       \<and> (\<forall>e v. falsy flds \<longrightarrow> get_filtered_fields env w1 c1 model None = (Inl e, v) \<longrightarrow>
            r = Inl e \<and> w2 = v)"
proof -
  let ?m = "migrate_data_between_servers env h w s1 s2 model flds domain"
  have a: "\<And>e. r = Inl e \<Longrightarrow>
            ?m = (Inl e, log_error ''Error migrating data between servers'' e w2)
            \<and> filter is_create (issued w (snd ?m)) = []"
  proof -
    fix e assume e: "r = Inl e"
    with assms(2) have rd: "get_data_from_model env w1 c1 model flds domain = (Inl e, w2)"
      by simp
    have "no_create w w1"
      using OdooClient_init_no_create[of w env s1] assms(1) by simp
    moreover have "no_create w1 w2"
      using get_data_from_model_no_create[of w1 env c1 model flds domain] rd by simp
    ultimately have "no_create w w2"
      by (rule no_create_trans)
    then show "?m = (Inl e, log_error ''Error migrating data between servers'' e w2)
            \<and> filter is_create (issued w (snd ?m)) = []"
      by (simp add: migrate_read_failure[OF assms(1) rd] no_create_issued)
  qed
  have b: "\<And>fs v f.
            (if falsy flds then get_filtered_fields env w1 c1 model None = (Inr fs, v)
             else fs = the flds \<and> v = w1) \<Longrightarrow>
            search_read_reply env (calls v) (search_read_call c1 model domain fs) = Inl f \<Longrightarrow>
            r = Inl (RpcError f)
            \<and> w2 = log_error ''Error getting data from model'' (RpcError f)
                     (v\<lparr>calls := calls v @ [search_read_call c1 model domain fs]\<rparr>)"
    using get_data_from_model_fault[of flds env w1 c1 model] assms(2) by fastforce
  have c: "\<And>e v. falsy flds \<Longrightarrow> get_filtered_fields env w1 c1 model None = (Inl e, v) \<Longrightarrow>
            r = Inl e \<and> w2 = v"
    using assms(2) by (simp add: get_data_from_model_def and_then_def)
  from a b c show ?thesis by blast
qed

text \<open>
  The scenario with a source whose search-and-read call times out, and the scenario
  with a source schema that has a descriptor without a type.
\<close>

theorem read_failure_aborts_migration_witness:
  "OdooClient_init (scenario (VInt 2) schema_a schema_b (Inl ''timeout'')) world0 server_a
     = (Inr client_a, after [authenticate_call server_a])
   \<and> falsy (None :: string list option)
   \<and> get_filtered_fields (scenario (VInt 2) schema_a schema_b (Inl ''timeout''))
        (after [authenticate_call server_a]) client_a ''crm.tag'' None
     = (Inr [''name'', ''color'', ''active''],
        after [authenticate_call server_a, fields_get_call client_a ''crm.tag''])
   \<and> search_read_reply (scenario (VInt 2) schema_a schema_b (Inl ''timeout''))
        [authenticate_call server_a, fields_get_call client_a ''crm.tag'']
        (search_read_call client_a ''crm.tag'' None [''name'', ''color'', ''active''])
     = Inl ''timeout''
   \<and> get_data_from_model (scenario (VInt 2) schema_a schema_b (Inl ''timeout''))
        (after [authenticate_call server_a]) client_a ''crm.tag'' None None
     = (Inl (RpcError ''timeout''),
        \<lparr>calls = trace_read,
         logged = [(''Error getting data from model'', RpcError ''timeout'')]\<rparr>)
   \<and> migrate_data_between_servers (scenario (VInt 2) schema_a schema_b (Inl ''timeout''))
        first_seen world0 server_a server_b ''crm.tag'' None None
     = (Inl (RpcError ''timeout''),
        \<lparr>calls = trace_read,
         logged = [(''Error getting data from model'', RpcError ''timeout''),
                   (''Error migrating data between servers'', RpcError ''timeout'')]\<rparr>)
   \<and> filter is_create trace_read = []
   \<and> OdooClient_init (scenario (VInt 2) schema_untyped schema_b (Inr [vip])) world0 server_a
     = (Inr client_a, after [authenticate_call server_a])
   \<and> get_filtered_fields (scenario (VInt 2) schema_untyped schema_b (Inr [vip]))
        (after [authenticate_call server_a]) client_a ''crm.tag'' None
     = (Inl (KeyError ''type''),
        \<lparr>calls = [authenticate_call server_a, fields_get_call client_a ''crm.tag''],
         logged = [(''Error getting filtered fields'', KeyError ''type'')]\<rparr>)
   \<and> migrate_data_between_servers (scenario (VInt 2) schema_untyped schema_b (Inr [vip]))
        first_seen world0 server_a server_b ''crm.tag'' None None
     = (Inl (KeyError ''type''),
        \<lparr>calls = [authenticate_call server_a, fields_get_call client_a ''crm.tag''],
         logged = [(''Error getting filtered fields'', KeyError ''type''),
                   (''Error migrating data between servers'', KeyError ''type'')]\<rparr>)
   \<and> filter is_create [authenticate_call server_a, fields_get_call client_a ''crm.tag''] = []"
proof -
  have h1: "OdooClient_init (scenario (VInt 2) schema_a schema_b (Inl ''timeout'')) world0
        server_a
     = (Inr client_a, after [authenticate_call server_a])"
    by (simp add: run_defs scenario_defs)
  have g: "get_filtered_fields (scenario (VInt 2) schema_a schema_b (Inl ''timeout''))
        (after [authenticate_call server_a]) client_a ''crm.tag'' None
     = (Inr [''name'', ''color'', ''active''],
        after [authenticate_call server_a, fields_get_call client_a ''crm.tag''])"
    by (simp add: run_defs scenario_defs)
  have f: "falsy (None :: string list option)"
    by (simp add: falsy_def)
  have h3: "search_read_reply (scenario (VInt 2) schema_a schema_b (Inl ''timeout''))
        (calls (after [authenticate_call server_a, fields_get_call client_a ''crm.tag'']))
        (search_read_call client_a ''crm.tag'' None [''name'', ''color'', ''active''])
     = Inl ''timeout''"
    by (simp add: scenario_def)
  obtain r w2 where rd: "get_data_from_model (scenario (VInt 2) schema_a schema_b (Inl ''timeout''))
        (after [authenticate_call server_a]) client_a ''crm.tag'' None None = (r, w2)"
    by (cases "get_data_from_model (scenario (VInt 2) schema_a schema_b (Inl ''timeout''))
        (after [authenticate_call server_a]) client_a ''crm.tag'' None None")
  note t = read_failure_aborts_migration[OF h1 rd, where h = first_seen and ?s2.0 = server_b]
  from t f g h3 have r: "r = Inl (RpcError ''timeout'')"
    and w2: "w2 = log_error ''Error getting data from model'' (RpcError ''timeout'')
               ((after [authenticate_call server_a, fields_get_call client_a ''crm.tag''])
                  \<lparr>calls := calls (after [authenticate_call server_a,
                                            fields_get_call client_a ''crm.tag''])
                     @ [search_read_call client_a ''crm.tag'' None
                          [''name'', ''color'', ''active'']]\<rparr>)"
    by auto
  from t r have m: "migrate_data_between_servers
        (scenario (VInt 2) schema_a schema_b (Inl ''timeout''))
        first_seen world0 server_a server_b ''crm.tag'' None None
     = (Inl (RpcError ''timeout''),
        log_error ''Error migrating data between servers'' (RpcError ''timeout'') w2)"
    by blast
  have k1: "OdooClient_init (scenario (VInt 2) schema_untyped schema_b (Inr [vip])) world0
        server_a
     = (Inr client_a, after [authenticate_call server_a])"
    by (simp add: run_defs scenario_defs)
  have kg: "get_filtered_fields (scenario (VInt 2) schema_untyped schema_b (Inr [vip]))
        (after [authenticate_call server_a]) client_a ''crm.tag'' None
     = (Inl (KeyError ''type''),
        \<lparr>calls = [authenticate_call server_a, fields_get_call client_a ''crm.tag''],
         logged = [(''Error getting filtered fields'', KeyError ''type'')]\<rparr>)"
    by (simp add: run_defs scenario_defs schema_untyped_def)
  obtain r' w2' where rd': "get_data_from_model
        (scenario (VInt 2) schema_untyped schema_b (Inr [vip]))
        (after [authenticate_call server_a]) client_a ''crm.tag'' None None = (r', w2')"
    by (cases "get_data_from_model (scenario (VInt 2) schema_untyped schema_b (Inr [vip]))
        (after [authenticate_call server_a]) client_a ''crm.tag'' None None")
  note t' = read_failure_aborts_migration[OF k1 rd', where h = first_seen and ?s2.0 = server_b]
  from t' f kg have r': "r' = Inl (KeyError ''type'')"
    and w2': "w2' = \<lparr>calls = [authenticate_call server_a, fields_get_call client_a ''crm.tag''],
         logged = [(''Error getting filtered fields'', KeyError ''type'')]\<rparr>"
    by blast+
  from t' r' have m': "migrate_data_between_servers
        (scenario (VInt 2) schema_untyped schema_b (Inr [vip]))
        first_seen world0 server_a server_b ''crm.tag'' None None
     = (Inl (KeyError ''type''),
        log_error ''Error migrating data between servers'' (KeyError ''type'') w2')"
    by blast
  have c1: "filter is_create trace_read = []"
    by (simp add: trace_read_def authenticate_call_def fields_get_call_def search_read_call_def)
  have c2: "filter is_create [authenticate_call server_a, fields_get_call client_a ''crm.tag'']
              = []"
    by (simp add: authenticate_call_def fields_get_call_def)
  from h1 f g h3 rd r w2 m k1 kg m' w2' c1 c2 show ?thesis
    by (simp add: after_def log_error_def trace_read_def)
qed

text \<open>
  Claim C8. If the credential check returns a falsy identity, \<^verbatim>\<open>authenticate\<close>
  raises (after logging) and the constructor returns no client: when its two proxies
  are built it raises the authentication error, with the one authenticate call issued
  and the one line logged. A proxy the library refuses makes the constructor raise
  before any call. Every client the constructor returns holds a truthy identity, the
  one the credential check returned, and each remote call issued by a method of a
  client (\<^verbatim>\<open>get_filtered_fields\<close>, \<^verbatim>\<open>get_fields_from_model\<close>,
  \<^verbatim>\<open>get_data_from_model\<close>, \<^verbatim>\<open>create_data_on_model\<close>) carries the identity the
  client holds.
\<close>

theorem authentication_failure_is_fatal:
  "(authenticate_reply env (calls w) (authenticate_call s) = Inr i \<longrightarrow> \<not> truthy i \<longrightarrow>
      authenticate env w s
        = (Inl AuthFailed,
           log_error ''Authentication error'' AuthFailed
             (w\<lparr>calls := calls w @ [authenticate_call s]\<rparr>))
      \<and> (\<exists>e. fst (OdooClient_init env w s) = Inl e)
      \<and> ((\<forall>u \<in> set (proxy_uris s). server_proxy env u = None) \<longrightarrow>
           OdooClient_init env w s
             = (Inl AuthFailed,
                log_error ''Authentication error'' AuthFailed
                  (w\<lparr>calls := calls w @ [authenticate_call s]\<rparr>))))
   \<and> (\<forall>u m. u \<in> set (proxy_uris s) \<longrightarrow> server_proxy env u = Some m \<longrightarrow>
         (\<exists>m'. OdooClient_init env w s = (Inl (ProxyError m'), w)))
   \<and> (OdooClient_init env w s = (Inr c, w') \<longrightarrow>
        truthy (uid c)
        \<and> authenticate_reply env (calls w) (authenticate_call s) = Inr (uid c)
        \<and> issued w w' = [authenticate_call s])
   \<and> (\<forall>q \<in> set (issued v (snd (get_filtered_fields env v c model ex))).
         call_uid q = Some (uid c))
   \<and> (\<forall>q \<in> set (issued v (snd (get_fields_from_model env v c model))).
         call_uid q = Some (uid c))
   \<and> (\<forall>q \<in> set (issued v (snd (get_data_from_model env v c model flds domain))).
         call_uid q = Some (uid c))
   \<and> (\<forall>q \<in> set (issued v (snd (create_data_on_model env v c model data))).
         call_uid q = Some (uid c))"
proof -
  have a: "authenticate_reply env (calls w) (authenticate_call s) = Inr i \<Longrightarrow> \<not> truthy i \<Longrightarrow>
      authenticate env w s
        = (Inl AuthFailed,
           log_error ''Authentication error'' AuthFailed
             (w\<lparr>calls := calls w @ [authenticate_call s]\<rparr>))
      \<and> (\<exists>e. fst (OdooClient_init env w s) = Inl e)
      \<and> ((\<forall>u \<in> set (proxy_uris s). server_proxy env u = None) \<longrightarrow>
           OdooClient_init env w s
             = (Inl AuthFailed,
                log_error ''Authentication error'' AuthFailed
                  (w\<lparr>calls := calls w @ [authenticate_call s]\<rparr>)))"
    by (auto simp: OdooClient_init_cases authenticate_cases proxy_uris_def
          split: option.splits)
  have p: "\<And>u m. u \<in> set (proxy_uris s) \<Longrightarrow> server_proxy env u = Some m \<Longrightarrow>
         (\<exists>m'. OdooClient_init env w s = (Inl (ProxyError m'), w))"
    by (auto simp: OdooClient_init_cases proxy_uris_def split: option.splits)
  have b: "OdooClient_init env w s = (Inr c, w') \<Longrightarrow>
        truthy (uid c)
        \<and> authenticate_reply env (calls w) (authenticate_call s) = Inr (uid c)
        \<and> issued w w' = [authenticate_call s]"
    using OdooClient_init_Inr[of env w s c w'] by (simp add: issued_def)
  have c1: "\<forall>q \<in> set (issued v (snd (get_filtered_fields env v c model ex))).
         call_uid q = Some (uid c)"
    using get_filtered_fields_calls[of env v c model ex]
    by (cases "get_filtered_fields env v c model ex") (simp add: issued_def fields_get_call_def)
  have c2: "\<forall>q \<in> set (issued v (snd (get_fields_from_model env v c model))).
         call_uid q = Some (uid c)"
    using get_fields_from_model_calls[of env v c model]
    by (cases "get_fields_from_model env v c model") (simp add: issued_def fields_get_call_def)
  have c3: "\<forall>q \<in> set (issued v (snd (get_data_from_model env v c model flds domain))).
         call_uid q = Some (uid c)"
    using get_data_from_model_calls[of env v c model flds domain]
    by (cases "get_data_from_model env v c model flds domain") (auto simp: issued_def)
  have c4: "\<forall>q \<in> set (issued v (snd (create_data_on_model env v c model data))).
         call_uid q = Some (uid c)"
    using create_data_on_model_spec[of env v c model data]
    by (cases "create_data_on_model env v c model data") (auto simp: issued_def create_call_def)
  from a p b c1 c2 c3 c4 show ?thesis by blast
qed

text \<open>
  A server that answers the credential check with \<^verbatim>\<open>False\<close>; a URL without a
  scheme, for which no proxy is built; and a server that answers with the identity 2,
  which the read of the constructed client then carries.
\<close>

theorem authentication_failure_is_fatal_witness:
  "authenticate_reply (scenario (VBool False) schema_a schema_b (Inr [vip])) (calls world0)
       (authenticate_call server_a) = Inr (VBool False)
   \<and> \<not> truthy (VBool False)
   \<and> map (server_proxy (scenario (VBool False) schema_a schema_b (Inr [vip])))
        (proxy_uris server_a) = [None, None]
   \<and> OdooClient_init (scenario (VBool False) schema_a schema_b (Inr [vip])) world0 server_a
     = (Inl AuthFailed,
        \<lparr>calls = [authenticate_call server_a],
         logged = [(''Authentication error'', AuthFailed)]\<rparr>)
   \<and> proxy_uris server_no_scheme = [''a/xmlrpc/2/common'', ''a/xmlrpc/2/object'']
   \<and> server_proxy (scenario (VInt 2) schema_a schema_b (Inr [vip])) ''a/xmlrpc/2/common''
     = Some ''unsupported XML-RPC protocol''
   \<and> OdooClient_init (scenario (VInt 2) schema_a schema_b (Inr [vip])) world0
        server_no_scheme
     = (Inl (ProxyError ''unsupported XML-RPC protocol''), world0)
   \<and> OdooClient_init (scenario (VInt 2) schema_a schema_b (Inr [vip])) world0 server_a
     = (Inr client_a, after [authenticate_call server_a])
   \<and> truthy (uid client_a)
   \<and> authenticate_reply (scenario (VInt 2) schema_a schema_b (Inr [vip])) (calls world0)
       (authenticate_call server_a) = Inr (uid client_a)
   \<and> issued (after [authenticate_call server_a])
        (snd (get_data_from_model (scenario (VInt 2) schema_a schema_b (Inr [vip]))
                (after [authenticate_call server_a]) client_a ''crm.tag'' None None))
     = [fields_get_call client_a ''crm.tag'',
        search_read_call client_a ''crm.tag'' None [''name'', ''color'', ''active'']]
   \<and> call_uid (fields_get_call client_a ''crm.tag'') = Some (uid client_a)
   \<and> call_uid (search_read_call client_a ''crm.tag'' None [''name'', ''color'', ''active''])
     = Some (uid client_a)"
proof -
  have h1: "authenticate_reply (scenario (VBool False) schema_a schema_b (Inr [vip]))
       (calls world0) (authenticate_call server_a) = Inr (VBool False)"
    by (simp add: scenario_def)
  have h2: "\<not> truthy (VBool False)"
    by simp
  have px: "map (server_proxy (scenario (VBool False) schema_a schema_b (Inr [vip])))
        (proxy_uris server_a) = [None, None]"
    by (simp add: scenario_def check_protocol_def proxy_uris_def server_a_def)
  then have pa: "\<forall>u \<in> set (proxy_uris server_a).
        server_proxy (scenario (VBool False) schema_a schema_b (Inr [vip])) u = None"
    by (simp add: proxy_uris_def)
  have u: "proxy_uris server_no_scheme = [''a/xmlrpc/2/common'', ''a/xmlrpc/2/object'']"
    by (simp add: proxy_uris_def server_no_scheme_def)
  have pn: "server_proxy (scenario (VInt 2) schema_a schema_b (Inr [vip]))
        ''a/xmlrpc/2/common'' = Some ''unsupported XML-RPC protocol''"
    by (simp add: scenario_def check_protocol_def)
  have h3: "OdooClient_init (scenario (VInt 2) schema_a schema_b (Inr [vip])) world0 server_a
     = (Inr client_a, after [authenticate_call server_a])"
    by (simp add: run_defs scenario_defs)
  have r: "issued (after [authenticate_call server_a])
        (snd (get_data_from_model (scenario (VInt 2) schema_a schema_b (Inr [vip]))
                (after [authenticate_call server_a]) client_a ''crm.tag'' None None))
     = [fields_get_call client_a ''crm.tag'',
        search_read_call client_a ''crm.tag'' None [''name'', ''color'', ''active'']]"
    by (simp add: run_defs scenario_defs issued_def)
  from authentication_failure_is_fatal[
      where env = "scenario (VBool False) schema_a schema_b (Inr [vip])" and w = world0
        and s = server_a and i = "VBool False"] h1 h2 pa
  have bad: "OdooClient_init (scenario (VBool False) schema_a schema_b (Inr [vip])) world0
               server_a
     = (Inl AuthFailed,
        \<lparr>calls = [authenticate_call server_a],
         logged = [(''Authentication error'', AuthFailed)]\<rparr>)"
    by (simp add: log_error_def world0_def)
  from authentication_failure_is_fatal[
      where env = "scenario (VInt 2) schema_a schema_b (Inr [vip])" and w = world0
        and s = server_no_scheme] u pn
  have "\<exists>m'. OdooClient_init (scenario (VInt 2) schema_a schema_b (Inr [vip])) world0
               server_no_scheme = (Inl (ProxyError m'), world0)"
    by (metis list.set_intros(1))
  then have none: "OdooClient_init (scenario (VInt 2) schema_a schema_b (Inr [vip])) world0
        server_no_scheme
     = (Inl (ProxyError ''unsupported XML-RPC protocol''), world0)"
    by (auto simp: OdooClient_init_cases scenario_def check_protocol_def server_no_scheme_def)
  from authentication_failure_is_fatal[
      where env = "scenario (VInt 2) schema_a schema_b (Inr [vip])" and w = world0
        and s = server_a and c = client_a and w' = "after [authenticate_call server_a]"
        and v = "after [authenticate_call server_a]" and model = "''crm.tag''"
        and flds = None and domain = None] h3 r
  have good: "truthy (uid client_a)
     \<and> authenticate_reply (scenario (VInt 2) schema_a schema_b (Inr [vip])) (calls world0)
         (authenticate_call server_a) = Inr (uid client_a)
     \<and> call_uid (fields_get_call client_a ''crm.tag'') = Some (uid client_a)
     \<and> call_uid (search_read_call client_a ''crm.tag'' None [''name'', ''color'', ''active''])
         = Some (uid client_a)"
    by simp
  from h1 h2 px u pn h3 r bad none good show ?thesis by simp
qed




text \<open>
  Claim C10. When the two clients are constructed, the read returns \<open>n\<close> records and
  the comparison succeeds with no common field, the migration still runs the create
  loop: it issues \<open>n\<close> create calls on the destination, each with the empty record as
  payload, since the projection of any record onto no field is the empty record.
\<close>

theorem empty_common_fields_create_empty_records:
  assumes "OdooClient_init env w s1 = (Inr c1, w1)"
      and "get_data_from_model env w1 c1 model flds domain = (Inr data, w2)"
      and "OdooClient_init env w2 s2 = (Inr c2, w3)"
      and "compare_models_between_servers env h w3 s1 s2 model = (Inr cmp, w4)"
      and "common_fields cmp = []"
  shows "issued w4 (snd (migrate_data_between_servers env h w s1 s2 model flds domain))
           = replicate (length data) (create_call c2 model [])
       \<and> project [] rcd = []"
proof -
  have "map (\<lambda>rcd. create_call c2 model (project [] rcd)) data
          = replicate (length data) (create_call c2 model [])"
    by (induction data) (simp_all add: project_def)
  then show ?thesis
    by (simp add: migrate_success[OF assms(1-4)] create_data_on_model_issued comp_def assms(5)
          project_def)
qed

text \<open>
  The scenario with a destination whose only field is \<^verbatim>\<open>description\<close>, and two
  source records: two create calls with empty payload, two identifiers.
\<close>

theorem empty_common_fields_create_empty_records_witness:
  "OdooClient_init (scenario (VInt 2) schema_a [(''description'', [(''type'', VStr ''text'')])]
        (Inr [vip, vip])) world0 server_a
     = (Inr client_a, after [authenticate_call server_a])
   \<and> get_data_from_model (scenario (VInt 2) schema_a
        [(''description'', [(''type'', VStr ''text'')])] (Inr [vip, vip]))
        (after [authenticate_call server_a]) client_a ''crm.tag'' None None
     = (Inr [vip, vip], after trace_read)
   \<and> OdooClient_init (scenario (VInt 2) schema_a
        [(''description'', [(''type'', VStr ''text'')])] (Inr [vip, vip])) (after trace_read)
        server_b
     = (Inr client_b, after (trace_read @ [authenticate_call server_b]))
   \<and> compare_models_between_servers (scenario (VInt 2) schema_a
        [(''description'', [(''type'', VStr ''text'')])] (Inr [vip, vip]))
        first_seen (after (trace_read @ [authenticate_call server_b])) server_a server_b
        ''crm.tag''
     = (Inr \<lparr>unique_to_list_1 = [''name'', ''color'', ''active''],
             unique_to_list_2 = [''description''], common_fields = []\<rparr>,
        after (trace_read @ [authenticate_call server_b] @ trace_compare))
   \<and> migrate_data_between_servers (scenario (VInt 2) schema_a
        [(''description'', [(''type'', VStr ''text'')])] (Inr [vip, vip]))
        first_seen world0 server_a server_b ''crm.tag'' None None
     = (Inr [8, 9],
        after (trace_read @ [authenticate_call server_b] @ trace_compare
                 @ [create_call client_b ''crm.tag'' [], create_call client_b ''crm.tag'' []]))
   \<and> issued (after (trace_read @ [authenticate_call server_b] @ trace_compare))
        (snd (migrate_data_between_servers (scenario (VInt 2) schema_a
                [(''description'', [(''type'', VStr ''text'')])] (Inr [vip, vip]))
                first_seen world0 server_a server_b ''crm.tag'' None None))
     = replicate (length [vip, vip]) (create_call client_b ''crm.tag'' [])"
proof -
  have h1: "OdooClient_init (scenario (VInt 2) schema_a
        [(''description'', [(''type'', VStr ''text'')])] (Inr [vip, vip])) world0 server_a
     = (Inr client_a, after [authenticate_call server_a])"
    by (simp add: run_defs scenario_defs)
  have h2: "get_data_from_model (scenario (VInt 2) schema_a
        [(''description'', [(''type'', VStr ''text'')])] (Inr [vip, vip]))
        (after [authenticate_call server_a]) client_a ''crm.tag'' None None
     = (Inr [vip, vip], after trace_read)"
    by (simp add: run_defs scenario_defs)
  have h3: "OdooClient_init (scenario (VInt 2) schema_a
        [(''description'', [(''type'', VStr ''text'')])] (Inr [vip, vip])) (after trace_read)
        server_b
     = (Inr client_b, after (trace_read @ [authenticate_call server_b]))"
    by (simp add: run_defs scenario_defs)
  have h4: "compare_models_between_servers (scenario (VInt 2) schema_a
        [(''description'', [(''type'', VStr ''text'')])] (Inr [vip, vip]))
        first_seen (after (trace_read @ [authenticate_call server_b])) server_a server_b
        ''crm.tag''
     = (Inr \<lparr>unique_to_list_1 = [''name'', ''color'', ''active''],
             unique_to_list_2 = [''description''], common_fields = []\<rparr>,
        after (trace_read @ [authenticate_call server_b] @ trace_compare))"
    by (simp add: run_defs scenario_defs)
  have h5: "common_fields \<lparr>unique_to_list_1 = [''name'', ''color'', ''active''],
             unique_to_list_2 = [''description''], common_fields = []\<rparr> = []"
    by simp
  have m: "migrate_data_between_servers (scenario (VInt 2) schema_a
        [(''description'', [(''type'', VStr ''text'')])] (Inr [vip, vip]))
        first_seen world0 server_a server_b ''crm.tag'' None None
     = (Inr [8, 9],
        after (trace_read @ [authenticate_call server_b] @ trace_compare
                 @ [create_call client_b ''crm.tag'' [], create_call client_b ''crm.tag'' []]))"
    unfolding migrate_success[OF h1 h2 h3 h4]
    by (simp add: project_def create_data_on_model_def execute_def scenario_defs)
  from empty_common_fields_create_empty_records[OF h1 h2 h3 h4 h5] h1 h2 h3 h4 m
  show ?thesis by simp
qed

end
